theory Spec2Isabelle
  imports Complex_Main "HOL-Library.Sublist"
begin

section \<open>Data model of \<^verbatim>\<open>ptt/cleanup_topologies.py\<close>\<close>

text \<open>
  The module consumes feature objects of the external pygplates library. Only what the
  module reads of them is modelled: a feature's identifier, its properties in declaration
  order (each as its top-level time-dependent value), and, for a topological value, the
  feature identifiers its sections (and interiors) delegate to.
\<close>

type_synonym feature_id = string

text \<open>
  A geological time: \<^verbatim>\<open>float('inf')\<close>, \<^verbatim>\<open>float('-inf')\<close> or a finite value. Times are only
  stored and returned by the module, never computed with.
\<close>

datatype geo_time = PosInf | NegInf | Finite real

type_synonym time_period = "geo_time \<times> geo_time"

text \<open>\<^verbatim>\<open>ALL_TIME = float('inf'), float('-inf')  # begin_time, end_time\<close>\<close>

definition ALL_TIME :: time_period where
  "ALL_TIME = (PosInf, NegInf)"

text \<open>
  The classes that \<^verbatim>\<open>get_value_type()\<close> and \<^verbatim>\<open>self.topology_type\<close> are compared with;
  every other class is \<open>OtherValueType\<close>.
\<close>

datatype value_type =
    GpmlTopologicalLine
  | GpmlTopologicalPolygon
  | GpmlTopologicalNetwork
  | OtherValueType

text \<open>
  Property values, as the visitor dispatches on them. A section is represented by
  \<^verbatim>\<open>section.get_property_delegate().get_feature_id()\<close>, an interior by
  \<^verbatim>\<open>interior.get_feature_id()\<close>. The value type of a piecewise aggregation is what
  \<^verbatim>\<open>get_value_type()\<close> returns (the library is not part of the sources, so it is a field).
  Every value the visitor has no method for (it inherits a method that does nothing) is
  \<open>GmlTimePeriod\<close> (a feature's declared valid time) or \<open>OtherValue\<close>.
\<close>

datatype property_value =
    GpmlConstantValue property_value
  | GpmlPiecewiseAggregation value_type "gpml_time_window list"
  | TopologicalLineValue "feature_id list"
  | TopologicalPolygonValue "feature_id list"
  | TopologicalNetworkValue "feature_id list" "feature_id list"
  | GmlTimePeriod geo_time geo_time
  | OtherValue
and gpml_time_window =
    GpmlTimeWindow (get_value: property_value) (get_begin_time: geo_time) (get_end_time: geo_time)

record feature =
  get_feature_id :: feature_id
  properties :: "property_value list"

type_synonym feature_collection = "feature list"

section \<open>The visitor \<^verbatim>\<open>_TopologicalReferenceVisitor\<close>\<close>

text \<open>The visitor's three instance fields; \<open>None\<close> is Python's \<^verbatim>\<open>None\<close>.\<close>

record visitor =
  topology_type :: "value_type option"
  references :: "(time_period \<times> feature_id set) list"
  current_time_period :: time_period

text \<open>The class \<^verbatim>\<open>_TopologicalReference\<close>.\<close>

record topological_reference =
  get_feature :: feature
  get_references :: "(time_period \<times> feature_id set) list"

definition visit_gpml_topological_line :: "feature_id list \<Rightarrow> visitor \<Rightarrow> visitor" where
  "visit_gpml_topological_line sections s =
     s\<lparr>topology_type := Some GpmlTopologicalLine,
       references := references s @ [(current_time_period s, set sections)]\<rparr>"

definition visit_gpml_topological_polygon :: "feature_id list \<Rightarrow> visitor \<Rightarrow> visitor" where
  "visit_gpml_topological_polygon exterior_sections s =
     s\<lparr>topology_type := Some GpmlTopologicalPolygon,
       references := references s @ [(current_time_period s, set exterior_sections)]\<rparr>"

definition visit_gpml_topological_network ::
    "feature_id list \<Rightarrow> feature_id list \<Rightarrow> visitor \<Rightarrow> visitor" where
  "visit_gpml_topological_network boundary_sections interiors s =
     s\<lparr>topology_type := Some GpmlTopologicalNetwork,
       references := references s @
         [(current_time_period s, set boundary_sections \<union> set interiors)]\<rparr>"

text \<open>
  \<open>accept_visitor\<close> is the double dispatch of \<^verbatim>\<open>property_value.accept_visitor(self)\<close>:
  \<^verbatim>\<open>visit_gpml_constant_value\<close>, \<^verbatim>\<open>visit_gpml_piecewise_aggregation\<close> and the three
  topological methods; \<open>visit_time_windows\<close> is the \<^verbatim>\<open>for gpml_time_window in ...\<close> loop of
  \<^verbatim>\<open>visit_gpml_piecewise_aggregation\<close>.
\<close>

fun accept_visitor :: "property_value \<Rightarrow> visitor \<Rightarrow> visitor"
  and visit_time_windows :: "gpml_time_window list \<Rightarrow> visitor \<Rightarrow> visitor" where
  "accept_visitor (GpmlConstantValue v) s = accept_visitor v s"
| "accept_visitor (GpmlPiecewiseAggregation value_type ws) s =
     (if value_type = GpmlTopologicalLine \<or> value_type = GpmlTopologicalPolygon \<or>
         value_type = GpmlTopologicalNetwork
      then (case ws of
              [GpmlTimeWindow v b e] \<Rightarrow> accept_visitor v s
            | _ \<Rightarrow> visit_time_windows ws s)
      else s)"
| "accept_visitor (TopologicalLineValue sections) s = visit_gpml_topological_line sections s"
| "accept_visitor (TopologicalPolygonValue exterior_sections) s =
     visit_gpml_topological_polygon exterior_sections s"
| "accept_visitor (TopologicalNetworkValue boundary_sections interiors) s =
     visit_gpml_topological_network boundary_sections interiors s"
| "accept_visitor (GmlTimePeriod b e) s = s"
| "accept_visitor OtherValue s = s"
| "visit_time_windows [] s = s"
| "visit_time_windows (GpmlTimeWindow v b e # ws) s =
     visit_time_windows ws
       ((accept_visitor v (s\<lparr>current_time_period := (b, e)\<rparr>))
          \<lparr>current_time_period := ALL_TIME\<rparr>)"

text \<open>
  The \<^verbatim>\<open>for property in feature\<close> loop of \<^verbatim>\<open>visit_feature\<close>, with its \<^verbatim>\<open>break\<close> once
  \<^verbatim>\<open>self.topology_type\<close> is set.
\<close>

fun visit_properties :: "property_value list \<Rightarrow> visitor \<Rightarrow> visitor" where
  "visit_properties [] s = s"
| "visit_properties (property_value # ps) s =
     (let s' = accept_visitor property_value s
      in if topology_type s' \<noteq> None then s' else visit_properties ps s')"

definition initial_visitor :: visitor where
  "initial_visitor =
     \<lparr>topology_type = None, references = [], current_time_period = ALL_TIME\<rparr>"

definition visit_feature :: "feature \<Rightarrow> value_type option \<times> topological_reference" where
  "visit_feature f =
     (let s = visit_properties (properties f) initial_visitor
      in (topology_type s, \<lparr>get_feature = f, get_references = references s\<rparr>))"

definition get_referenced_feature_ids :: "topological_reference \<Rightarrow> feature_id set" where
  "get_referenced_feature_ids r =
     fold (\<lambda>(time_period, feature_ids_referenced_in_time_period) set_referenced_feature_ids.
             set_referenced_feature_ids \<union> feature_ids_referenced_in_time_period)
       (get_references r) {}"

section \<open>The function \<^verbatim>\<open>remove_features_not_referenced_by_topologies\<close>\<close>

text \<open>
  The local variables of the function that its first two loops read and update. A Python
  \<^verbatim>\<open>set\<close> is a HOL set, the \<^verbatim>\<open>dict\<close> of line references a map.
\<close>

record locals =
  set_feature_ids_of_topological_polygons_and_networks :: "feature_id set"
  set_feature_ids_referenced_by_topological_polygons_and_networks :: "feature_id set"
  set_feature_ids_referenced_by_topological_lines_referenced_by_topological_polygons_and_networks :: "feature_id set"
  topological_polygon_and_network_references :: "topological_reference list"
  topological_line_references :: "feature_id \<rightharpoonup> topological_reference"

definition initial_locals :: locals where
  "initial_locals =
     \<lparr>set_feature_ids_of_topological_polygons_and_networks = {},
      set_feature_ids_referenced_by_topological_polygons_and_networks = {},
      set_feature_ids_referenced_by_topological_lines_referenced_by_topological_polygons_and_networks = {},
      topological_polygon_and_network_references = [],
      topological_line_references = Map.empty\<rparr>"

text \<open>The body of the first loop (source lines 89 to 102), for one feature.\<close>

definition find_topological_feature :: "feature \<Rightarrow> locals \<Rightarrow> locals" where
  "find_topological_feature f l =
     (let kind = fst (visit_feature f); topological_reference = snd (visit_feature f)
      in if kind = Some GpmlTopologicalLine
         then l\<lparr>topological_line_references :=
                  (topological_line_references l)(get_feature_id f \<mapsto> topological_reference)\<rparr>
         else if kind = Some GpmlTopologicalPolygon \<or> kind = Some GpmlTopologicalNetwork
         then l\<lparr>topological_polygon_and_network_references :=
                    topological_polygon_and_network_references l @ [topological_reference],
                  set_feature_ids_of_topological_polygons_and_networks :=
                    insert (get_feature_id f)
                      (set_feature_ids_of_topological_polygons_and_networks l)\<rparr>
         else l)"

definition find_topological_features :: "feature_collection list \<Rightarrow> locals \<Rightarrow> locals" where
  "find_topological_features feature_collections l =
     fold (\<lambda>feature_collection. fold find_topological_feature feature_collection)
       feature_collections l"

text \<open>
  The body of the second loop (source lines 106 to 115), for one
  \<^verbatim>\<open>(time_period, feature_ids_referenced_in_time_period)\<close> pair. The inner
  \<^verbatim>\<open>for referenced_feature_id in ...\<close> loop only adds to one set and reads the
  dictionary, so it is the union over the referenced ids. A \<^verbatim>\<open>_TopologicalReference\<close>
  object is always true in \<^verbatim>\<open>if topological_line_reference:\<close>.
\<close>

definition include_references ::
    "time_period \<times> feature_id set \<Rightarrow> locals \<Rightarrow> locals" where
  "include_references reference l =
     (let feature_ids_referenced_in_time_period = snd reference
      in l\<lparr>set_feature_ids_referenced_by_topological_polygons_and_networks :=
             set_feature_ids_referenced_by_topological_polygons_and_networks l \<union>
               feature_ids_referenced_in_time_period,
           set_feature_ids_referenced_by_topological_lines_referenced_by_topological_polygons_and_networks :=
             set_feature_ids_referenced_by_topological_lines_referenced_by_topological_polygons_and_networks l \<union>
               (\<Union>referenced_feature_id \<in> feature_ids_referenced_in_time_period.
                  case topological_line_references l referenced_feature_id of
                    None \<Rightarrow> {}
                  | Some topological_line_reference \<Rightarrow>
                      get_referenced_feature_ids topological_line_reference)\<rparr>)"

definition find_referenced_features :: "locals \<Rightarrow> locals" where
  "find_referenced_features l =
     fold (\<lambda>topological_polygon_and_network_reference.
             fold include_references
               (get_references topological_polygon_and_network_reference))
       (topological_polygon_and_network_references l) l"

definition feature_ids_to_keep :: "feature_collection list \<Rightarrow> feature_id set" where
  "feature_ids_to_keep feature_collections =
     (let l = find_referenced_features
                (find_topological_features feature_collections initial_locals)
      in set_feature_ids_of_topological_polygons_and_networks l \<union>
         set_feature_ids_referenced_by_topological_polygons_and_networks l \<union>
         set_feature_ids_referenced_by_topological_lines_referenced_by_topological_polygons_and_networks l)"

text \<open>
  The \<^verbatim>\<open>while feature_index < len(feature_collection)\<close> loop (source lines 125 to 133):
  a feature whose id is not kept is deleted in place and the index, decremented and then
  incremented, stays where it is; otherwise the index moves on.
\<close>

function remove_unreferenced ::
    "feature_id set \<Rightarrow> feature_collection \<Rightarrow> nat \<Rightarrow> feature_collection" where
  "remove_unreferenced keep feature_collection feature_index =
     (if feature_index < length feature_collection
      then if get_feature_id (feature_collection ! feature_index) \<notin> keep
           then remove_unreferenced keep
                  (take feature_index feature_collection @
                   drop (Suc feature_index) feature_collection)
                  feature_index
           else remove_unreferenced keep feature_collection (feature_index + 1)
      else feature_collection)"
  by pat_completeness auto
termination
  by (relation "measure (\<lambda>(keep, feature_collection, feature_index).
        length feature_collection - feature_index)") auto

declare remove_unreferenced.simps [simp del]

text \<open>
  The function itself. Its input is the list of collections after
  \<^verbatim>\<open>list(pygplates.FeatureCollection(...))\<close>, each a list of features. The flag
  \<^verbatim>\<open>restrict_referenced_feature_time_periods\<close> is a parameter that the body never reads.
\<close>

definition remove_features_not_referenced_by_topologies ::
    "feature_collection list \<Rightarrow> bool \<Rightarrow> feature_collection list" where
  "remove_features_not_referenced_by_topologies feature_collections
       restrict_referenced_feature_time_periods =
     map (\<lambda>feature_collection.
            remove_unreferenced (feature_ids_to_keep feature_collections) feature_collection 0)
       feature_collections"

section \<open>Vocabulary for the properties\<close>

text \<open>
  What the extractor says of one feature: its topology kind, and the feature ids it
  references in any of its time windows.
\<close>

definition topology_kind :: "feature \<Rightarrow> value_type option" where
  "topology_kind f = fst (visit_feature f)"

definition referenced_feature_ids :: "feature \<Rightarrow> feature_id set" where
  "referenced_feature_ids f = get_referenced_feature_ids (snd (visit_feature f))"

definition is_polygon_or_network :: "feature \<Rightarrow> bool" where
  "is_polygon_or_network f =
     (topology_kind f = Some GpmlTopologicalPolygon \<or>
      topology_kind f = Some GpmlTopologicalNetwork)"

definition is_line :: "feature \<Rightarrow> bool" where
  "is_line f = (topology_kind f = Some GpmlTopologicalLine)"

definition polygons_and_networks :: "feature_collection list \<Rightarrow> feature list" where
  "polygons_and_networks feature_collections =
     filter is_polygon_or_network (concat feature_collections)"

definition polygon_and_network_ids :: "feature_collection list \<Rightarrow> feature_id set" where
  "polygon_and_network_ids feature_collections =
     get_feature_id ` set (polygons_and_networks feature_collections)"

definition directly_referenced :: "feature_collection list \<Rightarrow> feature_id set" where
  "directly_referenced feature_collections =
     (\<Union>f \<in> set (polygons_and_networks feature_collections). referenced_feature_ids f)"

text \<open>
  The Line feature that the dictionary of line references holds under an id after the
  first loop: the last Line feature with that id, in the order the collections and their
  features are scanned.
\<close>

definition recorded_line :: "feature_collection list \<Rightarrow> feature_id \<Rightarrow> feature option" where
  "recorded_line feature_collections i =
     find (\<lambda>f. is_line f \<and> get_feature_id f = i) (rev (concat feature_collections))"

definition referenced_by_recorded_lines :: "feature_collection list \<Rightarrow> feature_id set" where
  "referenced_by_recorded_lines feature_collections =
     (\<Union>i \<in> directly_referenced feature_collections.
        case recorded_line feature_collections i of
          None \<Rightarrow> {}
        | Some line \<Rightarrow> referenced_feature_ids line)"

text \<open>
  The third set of the keep-set as the specification words it: the ids referenced by some
  Line whose id is in the directly-referenced set.
\<close>

definition referenced_by_some_line :: "feature_collection list \<Rightarrow> feature_id set" where
  "referenced_by_some_line feature_collections =
     (\<Union>line \<in> set (filter (\<lambda>f. is_line f \<and>
                                get_feature_id f \<in> directly_referenced feature_collections)
                         (concat feature_collections)).
        referenced_feature_ids line)"

definition specified_keep_set :: "feature_collection list \<Rightarrow> feature_id set" where
  "specified_keep_set feature_collections =
     polygon_and_network_ids feature_collections \<union>
     directly_referenced feature_collections \<union>
     referenced_by_some_line feature_collections"

text \<open>A topological value proper, and the feature ids its sections and interiors name.\<close>

fun is_topological_value :: "property_value \<Rightarrow> bool" where
  "is_topological_value (TopologicalLineValue sections) = True"
| "is_topological_value (TopologicalPolygonValue exterior_sections) = True"
| "is_topological_value (TopologicalNetworkValue boundary_sections interiors) = True"
| "is_topological_value v = False"

fun section_feature_ids :: "property_value \<Rightarrow> feature_id set" where
  "section_feature_ids (TopologicalLineValue sections) = set sections"
| "section_feature_ids (TopologicalPolygonValue exterior_sections) = set exterior_sections"
| "section_feature_ids (TopologicalNetworkValue boundary_sections interiors) =
     set boundary_sections \<union> set interiors"
| "section_feature_ids v = {}"

text \<open>
  Two inputs are identical except for the declared time periods of their time windows
  when they agree once every window's begin and end time is overwritten by the same
  value.
\<close>

fun erase_time_periods :: "property_value \<Rightarrow> property_value"
  and erase_time_window :: "gpml_time_window \<Rightarrow> gpml_time_window" where
  "erase_time_periods (GpmlConstantValue v) = GpmlConstantValue (erase_time_periods v)"
| "erase_time_periods (GpmlPiecewiseAggregation value_type ws) =
     GpmlPiecewiseAggregation value_type (map erase_time_window ws)"
| "erase_time_periods (TopologicalLineValue sections) = TopologicalLineValue sections"
| "erase_time_periods (TopologicalPolygonValue exterior_sections) =
     TopologicalPolygonValue exterior_sections"
| "erase_time_periods (TopologicalNetworkValue boundary_sections interiors) =
     TopologicalNetworkValue boundary_sections interiors"
| "erase_time_periods (GmlTimePeriod b e) = GmlTimePeriod b e"
| "erase_time_periods OtherValue = OtherValue"
| "erase_time_window (GpmlTimeWindow v b e) = GpmlTimeWindow (erase_time_periods v) PosInf NegInf"

definition erase_feature :: "feature \<Rightarrow> feature" where
  "erase_feature f = f\<lparr>properties := map erase_time_periods (properties f)\<rparr>"

definition erase_collections :: "feature_collection list \<Rightarrow> feature_collection list" where
  "erase_collections feature_collections = map (map erase_feature) feature_collections"

text \<open>
  Auxiliary notions of the proofs: what the dictionary of line references contributes for
  one referenced id, the second loop over an explicit list of references, and two visitor
  states that agree on everything but the recorded time periods.
\<close>

definition line_lookup :: "locals \<Rightarrow> feature_id \<Rightarrow> feature_id set" where
  "line_lookup l i =
     (case topological_line_references l i of
        None \<Rightarrow> {}
      | Some topological_line_reference \<Rightarrow> get_referenced_feature_ids topological_line_reference)"

definition resolve_references :: "topological_reference list \<Rightarrow> locals \<Rightarrow> locals" where
  "resolve_references refs l = fold (\<lambda>r. fold include_references (get_references r)) refs l"

definition same_findings :: "visitor \<Rightarrow> visitor \<Rightarrow> bool" where
  "same_findings s t =
     (topology_type s = topology_type t \<and> map snd (references s) = map snd (references t))"

section \<open>Example inputs\<close>

text \<open>
  A regular feature carries its valid time and some other property; a topological feature
  carries its valid time and one topological property. Top-level property values are
  wrapped the way \<^verbatim>\<open>get_time_dependent_value()\<close> returns them.
\<close>

definition regular_feature :: "feature_id \<Rightarrow> feature" where
  "regular_feature i =
     \<lparr>get_feature_id = i,
      properties = [GpmlConstantValue (GmlTimePeriod (Finite 100) (Finite 0)),
                    GpmlConstantValue OtherValue]\<rparr>"

definition polygon_feature :: "feature_id \<Rightarrow> feature_id list \<Rightarrow> feature" where
  "polygon_feature i exterior_sections =
     \<lparr>get_feature_id = i,
      properties = [GpmlConstantValue (GmlTimePeriod (Finite 100) (Finite 0)),
                    GpmlConstantValue (TopologicalPolygonValue exterior_sections)]\<rparr>"

definition line_feature :: "feature_id \<Rightarrow> feature_id list \<Rightarrow> feature" where
  "line_feature i sections =
     \<lparr>get_feature_id = i,
      properties = [GpmlConstantValue (GmlTimePeriod (Finite 100) (Finite 0)),
                    GpmlConstantValue (TopologicalLineValue sections)]\<rparr>"

text \<open>
  The first scenario of the specification: collection A holds polygon P (referencing
  line L and R1) and R1; collection B holds L (referencing R2 and R3), R2, R3, the
  unreferenced R4 and the unreferenced line L2.
\<close>

definition two_collections :: "feature_collection list" where
  "two_collections =
     [[polygon_feature ''P'' [''L'', ''R1''], regular_feature ''R1''],
      [line_feature ''L'' [''R2'', ''R3''], regular_feature ''R2'', regular_feature ''R3'',
       regular_feature ''R4'', line_feature ''L2'' [''R4'']]]"

text \<open>
  The second scenario: network N with a boundary section on line L and an interior on R3;
  L has two time windows, [10, 5] referencing R1 and [5, 0] referencing R2.
\<close>

definition two_window_line :: feature where
  "two_window_line =
     \<lparr>get_feature_id = ''L'',
      properties =
        [GpmlConstantValue (GmlTimePeriod (Finite 10) (Finite 0)),
         GpmlPiecewiseAggregation GpmlTopologicalLine
           [GpmlTimeWindow (TopologicalLineValue [''R1'']) (Finite 10) (Finite 5),
            GpmlTimeWindow (TopologicalLineValue [''R2'']) (Finite 5) (Finite 0)]]\<rparr>"

definition network_feature :: feature where
  "network_feature =
     \<lparr>get_feature_id = ''N'',
      properties =
        [GpmlConstantValue (GmlTimePeriod (Finite 10) (Finite 0)),
         GpmlConstantValue (TopologicalNetworkValue [''L''] [''R3''])]\<rparr>"

definition network_collections :: "feature_collection list" where
  "network_collections =
     [[network_feature, two_window_line, regular_feature ''R1'', regular_feature ''R2'',
       regular_feature ''R3'', regular_feature ''R4'']]"

text \<open>A polygon whose sole time window declares the period [10, 5].\<close>

definition one_window_polygon :: feature where
  "one_window_polygon =
     \<lparr>get_feature_id = ''P'',
      properties =
        [GpmlConstantValue (GmlTimePeriod (Finite 100) (Finite 0)),
         GpmlPiecewiseAggregation GpmlTopologicalPolygon
           [GpmlTimeWindow (TopologicalPolygonValue [''R1'', ''R2'']) (Finite 10) (Finite 5)]]\<rparr>"

text \<open>Polygon P references line L1, which references line L2, which references R.\<close>

definition chained_lines :: "feature_collection list" where
  "chained_lines =
     [[polygon_feature ''P'' [''L1''], line_feature ''L1'' [''L2''],
       line_feature ''L2'' [''R''], regular_feature ''R'']]"

text \<open>
  A polygon with two time windows, the first beginning at \<open>begin\<close>; it references R
  in its first window only. R declares the valid time [100, 0].
\<close>

definition two_window_polygon :: "real \<Rightarrow> feature" where
  "two_window_polygon begin =
     \<lparr>get_feature_id = ''P'',
      properties =
        [GpmlConstantValue (GmlTimePeriod (Finite 100) (Finite 0)),
         GpmlPiecewiseAggregation GpmlTopologicalPolygon
           [GpmlTimeWindow (TopologicalPolygonValue [''R'']) (Finite begin) (Finite 5),
            GpmlTimeWindow (TopologicalPolygonValue []) (Finite 5) (Finite 0)]]\<rparr>"

definition windowed_collections :: "real \<Rightarrow> feature_collection list" where
  "windowed_collections begin = [[two_window_polygon begin, regular_feature ''R'']]"

text \<open>A feature with two topological properties: a line first, a polygon second.\<close>

definition line_then_polygon :: feature where
  "line_then_polygon =
     \<lparr>get_feature_id = ''X'',
      properties = [GpmlConstantValue OtherValue,
                    GpmlConstantValue (TopologicalLineValue [''A'']),
                    GpmlConstantValue (TopologicalPolygonValue [''B''])]\<rparr>"

section \<open>The filter loop and the two scanning loops\<close>

lemma get_referenced_feature_ids_Union:
  "get_referenced_feature_ids r = \<Union> (snd ` set (get_references r))"
proof -
  have "fold (\<lambda>(t, ids) acc. acc \<union> ids) rs A = A \<union> \<Union> (snd ` set rs)" for rs :: "(time_period \<times> feature_id set) list" and A
    by (induction rs arbitrary: A) auto
  then show ?thesis
    by (simp add: get_referenced_feature_ids_def)
qed

lemma remove_unreferenced_filter:
  "remove_unreferenced keep fc i = take i fc @ filter (\<lambda>f. get_feature_id f \<in> keep) (drop i fc)"
proof (induction keep fc i rule: remove_unreferenced.induct)
  case (1 keep fc i)
  show ?case
  proof (cases "i < length fc")
    case False
    then show ?thesis by (subst remove_unreferenced.simps) simp
  next
    case True
    note lt = this
    have dr: "drop i fc = fc ! i # drop (Suc i) fc"
      using lt by (simp add: Cons_nth_drop_Suc)
    show ?thesis
    proof (cases "get_feature_id (fc ! i) \<in> keep")
      case True
      have "remove_unreferenced keep fc i = remove_unreferenced keep fc (i + 1)"
        using lt True by (subst remove_unreferenced.simps) simp
      also have "\<dots> = take (i + 1) fc @ filter (\<lambda>f. get_feature_id f \<in> keep) (drop (i + 1) fc)"
        using "1.IH"(2) lt True by simp
      finally show ?thesis
        using lt True dr by (simp add: take_Suc_conv_app_nth)
    next
      case False
      let ?fc' = "take i fc @ drop (Suc i) fc"
      have "remove_unreferenced keep fc i = remove_unreferenced keep ?fc' i"
        using lt False by (subst remove_unreferenced.simps) simp
      also have "\<dots> = take i ?fc' @ filter (\<lambda>f. get_feature_id f \<in> keep) (drop i ?fc')"
        using "1.IH"(1) lt False by simp
      finally show ?thesis
        using lt False dr by (simp add: min_def)
    qed
  qed
qed

lemma find_topological_features_concat:
  "find_topological_features fcs l = fold find_topological_feature (concat fcs) l"
  unfolding find_topological_features_def
  by (induction fcs arbitrary: l) simp_all

lemma scan_polygon_ids:
  "set_feature_ids_of_topological_polygons_and_networks (fold find_topological_feature fs l) =
     set_feature_ids_of_topological_polygons_and_networks l \<union>
     get_feature_id ` set (filter is_polygon_or_network fs)"
  by (induction fs arbitrary: l)
     (auto simp: find_topological_feature_def Let_def is_polygon_or_network_def topology_kind_def)

lemma scan_polygon_references:
  "topological_polygon_and_network_references (fold find_topological_feature fs l) =
     topological_polygon_and_network_references l @
     map (\<lambda>f. snd (visit_feature f)) (filter is_polygon_or_network fs)"
  by (induction fs arbitrary: l)
     (auto simp: find_topological_feature_def Let_def is_polygon_or_network_def topology_kind_def)

lemma scan_direct:
  "set_feature_ids_referenced_by_topological_polygons_and_networks
     (fold find_topological_feature fs l) =
   set_feature_ids_referenced_by_topological_polygons_and_networks l"
  by (induction fs arbitrary: l) (auto simp: find_topological_feature_def Let_def)

lemma scan_via:
  "set_feature_ids_referenced_by_topological_lines_referenced_by_topological_polygons_and_networks
     (fold find_topological_feature fs l) =
   set_feature_ids_referenced_by_topological_lines_referenced_by_topological_polygons_and_networks l"
  by (induction fs arbitrary: l) (auto simp: find_topological_feature_def Let_def)

lemma scan_line_references:
  "topological_line_references (fold find_topological_feature fs l) i =
     (case find (\<lambda>f. is_line f \<and> get_feature_id f = i) (rev fs) of
        None \<Rightarrow> topological_line_references l i
      | Some line \<Rightarrow> Some (snd (visit_feature line)))"
proof (induction fs rule: rev_induct)
  case Nil
  then show ?case by simp
next
  case (snoc f fs)
  show ?case
    using snoc.IH
    by (auto simp: find_topological_feature_def Let_def is_line_def topology_kind_def)
qed

lemma include_references_frame:
  "set_feature_ids_of_topological_polygons_and_networks (include_references r l) =
     set_feature_ids_of_topological_polygons_and_networks l"
  "topological_polygon_and_network_references (include_references r l) =
     topological_polygon_and_network_references l"
  "topological_line_references (include_references r l) = topological_line_references l"
  by (simp_all add: include_references_def Let_def)

lemma fold_include_references_frame:
  "set_feature_ids_of_topological_polygons_and_networks (fold include_references rs l) =
     set_feature_ids_of_topological_polygons_and_networks l"
  "topological_polygon_and_network_references (fold include_references rs l) =
     topological_polygon_and_network_references l"
  "topological_line_references (fold include_references rs l) = topological_line_references l"
  by (induction rs arbitrary: l) (simp_all add: include_references_frame)

lemma fold_include_references_direct:
  "set_feature_ids_referenced_by_topological_polygons_and_networks
     (fold include_references rs l) =
   set_feature_ids_referenced_by_topological_polygons_and_networks l \<union> \<Union> (snd ` set rs)"
proof (induction rs arbitrary: l)
  case Nil
  then show ?case by simp
next
  case (Cons r rs)
  have "set_feature_ids_referenced_by_topological_polygons_and_networks (include_references r l) =
        set_feature_ids_referenced_by_topological_polygons_and_networks l \<union> snd r"
    by (simp add: include_references_def Let_def)
  then show ?case
    using Cons.IH [of "include_references r l"] by auto
qed

lemma fold_include_references_via:
  "set_feature_ids_referenced_by_topological_lines_referenced_by_topological_polygons_and_networks
     (fold include_references rs l) =
   set_feature_ids_referenced_by_topological_lines_referenced_by_topological_polygons_and_networks l
     \<union> (\<Union>i \<in> \<Union> (snd ` set rs). line_lookup l i)"
proof (induction rs arbitrary: l)
  case Nil
  then show ?case by simp
next
  case (Cons r rs)
  have step: "set_feature_ids_referenced_by_topological_lines_referenced_by_topological_polygons_and_networks
          (include_references r l) =
        set_feature_ids_referenced_by_topological_lines_referenced_by_topological_polygons_and_networks l
          \<union> (\<Union>i \<in> snd r. line_lookup l i)"
    by (simp add: include_references_def Let_def line_lookup_def)
  have same: "line_lookup (include_references r l) = line_lookup l"
    by (rule ext) (simp add: line_lookup_def include_references_frame)
  show ?case
    using Cons.IH [of "include_references r l"] by (auto simp: step same)
qed

lemma resolve_references_frame:
  "set_feature_ids_of_topological_polygons_and_networks (resolve_references refs l) =
     set_feature_ids_of_topological_polygons_and_networks l"
  "topological_line_references (resolve_references refs l) = topological_line_references l"
  unfolding resolve_references_def
  by (induction refs arbitrary: l) (simp_all add: fold_include_references_frame)

lemma resolve_references_direct:
  "set_feature_ids_referenced_by_topological_polygons_and_networks (resolve_references refs l) =
   set_feature_ids_referenced_by_topological_polygons_and_networks l \<union>
     (\<Union>r \<in> set refs. get_referenced_feature_ids r)"
  unfolding resolve_references_def
proof (induction refs arbitrary: l)
  case Nil
  then show ?case by simp
next
  case (Cons r refs)
  show ?case
    using Cons.IH [of "fold include_references (get_references r) l"]
    by (auto simp: fold_include_references_direct get_referenced_feature_ids_Union)
qed

lemma resolve_references_via:
  "set_feature_ids_referenced_by_topological_lines_referenced_by_topological_polygons_and_networks
     (resolve_references refs l) =
   set_feature_ids_referenced_by_topological_lines_referenced_by_topological_polygons_and_networks l
     \<union> (\<Union>i \<in> (\<Union>r \<in> set refs. get_referenced_feature_ids r). line_lookup l i)"
proof (induction refs arbitrary: l)
  case Nil
  then show ?case by (simp add: resolve_references_def)
next
  case (Cons r refs)
  define l' where "l' = fold include_references (get_references r) l"
  have same: "line_lookup l' = line_lookup l"
    by (rule ext) (simp add: l'_def line_lookup_def fold_include_references_frame)
  have unfold: "resolve_references (r # refs) l = resolve_references refs l'"
    by (simp add: resolve_references_def l'_def)
  have v: "set_feature_ids_referenced_by_topological_lines_referenced_by_topological_polygons_and_networks l' =
      set_feature_ids_referenced_by_topological_lines_referenced_by_topological_polygons_and_networks l
        \<union> (\<Union>i \<in> get_referenced_feature_ids r. line_lookup l i)"
    by (simp only: l'_def fold_include_references_via get_referenced_feature_ids_Union)
  show ?case
    unfolding unfold Cons.IH [of l'] same v
    by (simp only: set_simps image_insert Union_insert UN_Un Un_assoc)
qed

lemma find_referenced_features_resolve:
  "find_referenced_features l =
     resolve_references (topological_polygon_and_network_references l) l"
  by (simp add: find_referenced_features_def resolve_references_def)

lemma scanned_line_lookup:
  "line_lookup (find_topological_features fcs initial_locals) i =
     (case recorded_line fcs i of None \<Rightarrow> {} | Some line \<Rightarrow> referenced_feature_ids line)"
  by (simp add: line_lookup_def find_topological_features_concat scan_line_references
        recorded_line_def referenced_feature_ids_def initial_locals_def split: option.splits)

lemma feature_ids_to_keep_eq:
  "feature_ids_to_keep fcs =
     polygon_and_network_ids fcs \<union> directly_referenced fcs \<union> referenced_by_recorded_lines fcs"
proof -
  define l where "l = find_topological_features fcs initial_locals"
  have refs: "topological_polygon_and_network_references l =
      map (\<lambda>f. snd (visit_feature f)) (polygons_and_networks fcs)"
    by (simp add: l_def find_topological_features_concat scan_polygon_references
          polygons_and_networks_def initial_locals_def)
  have ids: "set_feature_ids_of_topological_polygons_and_networks l = polygon_and_network_ids fcs"
    by (simp add: l_def find_topological_features_concat scan_polygon_ids
          polygon_and_network_ids_def polygons_and_networks_def initial_locals_def)
  have d0: "set_feature_ids_referenced_by_topological_polygons_and_networks l = {}"
    by (simp add: l_def find_topological_features_concat scan_direct initial_locals_def)
  have v0: "set_feature_ids_referenced_by_topological_lines_referenced_by_topological_polygons_and_networks l = {}"
    by (simp add: l_def find_topological_features_concat scan_via initial_locals_def)
  have look: "line_lookup l i =
      (case recorded_line fcs i of None \<Rightarrow> {} | Some line \<Rightarrow> referenced_feature_ids line)" for i
    unfolding l_def by (rule scanned_line_lookup)
  have U: "(\<Union>r \<in> set (topological_polygon_and_network_references l).
              get_referenced_feature_ids r) = directly_referenced fcs"
    by (simp add: refs directly_referenced_def referenced_feature_ids_def)
  have a: "set_feature_ids_of_topological_polygons_and_networks (find_referenced_features l) =
      polygon_and_network_ids fcs"
    by (simp only: find_referenced_features_resolve resolve_references_frame ids)
  have b: "set_feature_ids_referenced_by_topological_polygons_and_networks
             (find_referenced_features l) = directly_referenced fcs"
    by (simp only: find_referenced_features_resolve resolve_references_direct U d0) simp
  have c: "set_feature_ids_referenced_by_topological_lines_referenced_by_topological_polygons_and_networks
             (find_referenced_features l) = referenced_by_recorded_lines fcs"
    by (simp only: find_referenced_features_resolve resolve_references_via U v0 look
          referenced_by_recorded_lines_def) simp
  show ?thesis
    unfolding feature_ids_to_keep_def Let_def l_def [symmetric]
    by (simp only: a b c)
qed

lemma remove_features_eq:
  "remove_features_not_referenced_by_topologies fcs flag =
     map (filter (\<lambda>f. get_feature_id f \<in> feature_ids_to_keep fcs)) fcs"
  by (simp add: remove_features_not_referenced_by_topologies_def remove_unreferenced_filter)

section \<open>The visitor\<close>

lemma visitor_eqI:
  "topology_type s = topology_type t \<Longrightarrow> references s = references t \<Longrightarrow>
   current_time_period s = current_time_period t \<Longrightarrow> s = (t :: visitor)"
  by simp

lemma kind_stays_assigned:
  "topology_type s \<noteq> None \<Longrightarrow> topology_type (accept_visitor v s) \<noteq> None"
  "topology_type s \<noteq> None \<Longrightarrow> topology_type (visit_time_windows ws s) \<noteq> None"
proof (induction v s and ws s rule: accept_visitor_visit_time_windows.induct)
  case (2 value_type ws s)
  then show ?case
    by (auto split: list.splits gpml_time_window.splits)
qed (auto simp: visit_gpml_topological_line_def visit_gpml_topological_polygon_def
       visit_gpml_topological_network_def)

lemma no_kind_no_references:
  "topology_type (accept_visitor v s) = None \<Longrightarrow>
     references (accept_visitor v s) = references s"
  "topology_type (visit_time_windows ws s) = None \<Longrightarrow>
     references (visit_time_windows ws s) = references s"
proof (induction v s and ws s rule: accept_visitor_visit_time_windows.induct)
  case (2 value_type ws s)
  then show ?case
    by (auto split: list.splits gpml_time_window.splits if_splits)
next
  case (9 v b e ws s)
  let ?s1 = "(accept_visitor v (s\<lparr>current_time_period := (b, e)\<rparr>))\<lparr>current_time_period := ALL_TIME\<rparr>"
  from 9(3) have n: "topology_type (visit_time_windows ws ?s1) = None" by simp
  then have "topology_type ?s1 = None"
    using kind_stays_assigned(2) [of ?s1 ws] by blast
  then have a: "references ?s1 = references s"
    using 9(1) by simp
  from 9(2) [OF n] a show ?case by simp
qed (auto simp: visit_gpml_topological_line_def visit_gpml_topological_polygon_def
       visit_gpml_topological_network_def)

lemma all_time_restored:
  "current_time_period s = ALL_TIME \<Longrightarrow> current_time_period (accept_visitor v s) = ALL_TIME"
  "current_time_period s = ALL_TIME \<Longrightarrow> current_time_period (visit_time_windows ws s) = ALL_TIME"
proof -
  have g: "current_time_period (accept_visitor v s) = current_time_period s \<or>
           current_time_period (accept_visitor v s) = ALL_TIME"
          "current_time_period (visit_time_windows ws s) = current_time_period s \<or>
           current_time_period (visit_time_windows ws s) = ALL_TIME" for v ws s
  proof (induction v s and ws s rule: accept_visitor_visit_time_windows.induct)
    case (2 value_type ws s)
    then show ?case
      by (auto split: list.splits gpml_time_window.splits)
  qed (auto simp: visit_gpml_topological_line_def visit_gpml_topological_polygon_def
         visit_gpml_topological_network_def)
  show "current_time_period s = ALL_TIME \<Longrightarrow> current_time_period (accept_visitor v s) = ALL_TIME"
    using g(1) [of v s] by auto
  show "current_time_period s = ALL_TIME \<Longrightarrow> current_time_period (visit_time_windows ws s) = ALL_TIME"
    using g(2) [of ws s] by auto
qed

lemma not_topological_unchanged:
  assumes "topology_type (accept_visitor v initial_visitor) = None"
  shows "accept_visitor v initial_visitor = initial_visitor"
proof (rule visitor_eqI)
  show "topology_type (accept_visitor v initial_visitor) = topology_type initial_visitor"
    using assms by (simp add: initial_visitor_def)
  show "references (accept_visitor v initial_visitor) = references initial_visitor"
    using assms by (rule no_kind_no_references(1))
  show "current_time_period (accept_visitor v initial_visitor) = current_time_period initial_visitor"
    using all_time_restored(1) [of initial_visitor v] by (simp add: initial_visitor_def)
qed

lemma initial_visitor_simps:
  "topology_type initial_visitor = None" "references initial_visitor = []"
  "current_time_period initial_visitor = ALL_TIME"
  by (simp_all add: initial_visitor_def)

lemma visit_properties_skip:
  assumes "\<forall>q \<in> set ps. topology_type (accept_visitor q initial_visitor) = None"
  shows "visit_properties (ps @ qs) initial_visitor = visit_properties qs initial_visitor"
  using assms
proof (induction ps)
  case Nil
  then show ?case by simp
next
  case (Cons p ps)
  then have "topology_type (accept_visitor p initial_visitor) = None" by simp
  then have "accept_visitor p initial_visitor = initial_visitor"
    by (rule not_topological_unchanged)
  then have "visit_properties ((p # ps) @ qs) initial_visitor =
      visit_properties (ps @ qs) initial_visitor"
    by (simp add: Let_def initial_visitor_simps)
  with Cons show ?case by simp
qed

lemma visit_properties_first:
  assumes "\<forall>q \<in> set ps. topology_type (accept_visitor q initial_visitor) = None"
    and "topology_type (accept_visitor p initial_visitor) \<noteq> None"
  shows "visit_properties (ps @ p # qs) initial_visitor = accept_visitor p initial_visitor"
proof -
  have "visit_properties (p # qs) initial_visitor = accept_visitor p initial_visitor"
    using assms(2) by (simp add: Let_def)
  with visit_properties_skip [OF assms(1), of "p # qs"] show ?thesis by simp
qed

lemma visit_properties_none:
  assumes "\<forall>q \<in> set ps. topology_type (accept_visitor q initial_visitor) = None"
  shows "visit_properties ps initial_visitor = initial_visitor"
  using visit_properties_skip [OF assms, of "[]"] by simp

lemma accept_topological_value:
  assumes "is_topological_value v"
  shows "references (accept_visitor v s) =
           references s @ [(current_time_period s, section_feature_ids v)]"
    and "topology_type (accept_visitor v s) \<noteq> None"
    and "current_time_period (accept_visitor v s) = current_time_period s"
  using assms
  by (cases v; simp add: visit_gpml_topological_line_def visit_gpml_topological_polygon_def
       visit_gpml_topological_network_def)+

lemma visit_time_windows_references:
  assumes "\<forall>w \<in> set ws. is_topological_value (get_value w)"
  shows "references (visit_time_windows ws s) =
           references s @
           map (\<lambda>w. ((get_begin_time w, get_end_time w), section_feature_ids (get_value w))) ws"
  using assms
proof (induction ws arbitrary: s)
  case Nil
  then show ?case by simp
next
  case (Cons w ws)
  obtain v b e where w: "w = GpmlTimeWindow v b e" by (cases w)
  from Cons.prems w have tv: "is_topological_value v" by simp
  let ?s1 = "(accept_visitor v (s\<lparr>current_time_period := (b, e)\<rparr>))\<lparr>current_time_period := ALL_TIME\<rparr>"
  have r1: "references ?s1 = references s @ [((b, e), section_feature_ids v)]"
    using accept_topological_value(1) [OF tv, of "s\<lparr>current_time_period := (b, e)\<rparr>"] by simp
  have "references (visit_time_windows (w # ws) s) = references (visit_time_windows ws ?s1)"
    by (simp add: w)
  also have "\<dots> = references ?s1 @
      map (\<lambda>w. ((get_begin_time w, get_end_time w), section_feature_ids (get_value w))) ws"
    using Cons.IH [of ?s1] Cons.prems by simp
  finally show ?case by (simp add: r1 w)
qed

lemma visit_time_windows_kind:
  assumes "\<forall>w \<in> set ws. is_topological_value (get_value w)" and "ws \<noteq> []"
  shows "topology_type (visit_time_windows ws s) \<noteq> None"
proof -
  obtain w ws' where ws: "ws = w # ws'" using assms(2) by (cases ws) auto
  obtain v b e where w: "w = GpmlTimeWindow v b e" by (cases w)
  from assms(1) ws w have tv: "is_topological_value v" by simp
  let ?s1 = "(accept_visitor v (s\<lparr>current_time_period := (b, e)\<rparr>))\<lparr>current_time_period := ALL_TIME\<rparr>"
  have "topology_type ?s1 \<noteq> None"
    using accept_topological_value(2) [OF tv] by simp
  then have "topology_type (visit_time_windows ws' ?s1) \<noteq> None"
    by (rule kind_stays_assigned(2))
  then show ?thesis by (simp add: ws w)
qed

lemma kind_is_topological:
  "topology_type s \<noteq> Some OtherValueType \<Longrightarrow>
     topology_type (accept_visitor v s) \<noteq> Some OtherValueType"
  "topology_type s \<noteq> Some OtherValueType \<Longrightarrow>
     topology_type (visit_time_windows ws s) \<noteq> Some OtherValueType"
proof (induction v s and ws s rule: accept_visitor_visit_time_windows.induct)
  case (2 value_type ws s)
  show ?case
  proof (cases "value_type = GpmlTopologicalLine \<or> value_type = GpmlTopologicalPolygon \<or>
      value_type = GpmlTopologicalNetwork")
    case False
    with "2.prems" show ?thesis by simp
  next
    case t: True
    show ?thesis
    proof (cases ws)
      case Nil
      with t "2.prems" show ?thesis by simp
    next
      case ws: (Cons w ws')
      obtain v b e where w: "w = GpmlTimeWindow v b e" by (cases w)
      show ?thesis
      proof (cases ws')
        case Nil
        from "2.IH"(2) [OF t ws w Nil "2.prems"] t ws w Nil show ?thesis by simp
      next
        case (Cons w2 ws2)
        from "2.IH"(3) [OF t ws w Cons "2.prems"] t ws w Cons show ?thesis by simp
      qed
    qed
  qed
qed (simp_all add: visit_gpml_topological_line_def visit_gpml_topological_polygon_def
       visit_gpml_topological_network_def)

section \<open>Time periods and the keep-set\<close>

lemma same_findings_period [simp]:
  "same_findings (s\<lparr>current_time_period := p\<rparr>) (t\<lparr>current_time_period := q\<rparr>) = same_findings s t"
  by (simp add: same_findings_def)

lemma erase_same_findings:
  "same_findings s t \<Longrightarrow> same_findings (accept_visitor v s) (accept_visitor (erase_time_periods v) t)"
  "same_findings s t \<Longrightarrow>
     same_findings (visit_time_windows ws s) (visit_time_windows (map erase_time_window ws) t)"
proof (induction v s and ws s arbitrary: t and t rule: accept_visitor_visit_time_windows.induct)
  case (2 value_type ws s)
  show ?case
    using "2.IH" "2.prems"
    by (auto split: list.splits gpml_time_window.splits)
next
  case (9 v b e ws s)
  have "same_findings (accept_visitor v (s\<lparr>current_time_period := (b, e)\<rparr>))
          (accept_visitor (erase_time_periods v) (t\<lparr>current_time_period := (PosInf, NegInf)\<rparr>))"
    by (rule "9.IH"(1)) (simp add: "9.prems")
  then have "same_findings
      ((accept_visitor v (s\<lparr>current_time_period := (b, e)\<rparr>))\<lparr>current_time_period := ALL_TIME\<rparr>)
      ((accept_visitor (erase_time_periods v) (t\<lparr>current_time_period := (PosInf, NegInf)\<rparr>))\<lparr>current_time_period := ALL_TIME\<rparr>)"
    by simp
  from "9.IH"(2) [OF this] show ?case by simp
qed (auto simp: same_findings_def visit_gpml_topological_line_def visit_gpml_topological_polygon_def
       visit_gpml_topological_network_def)

lemma erase_visit_properties:
  "same_findings s t \<Longrightarrow>
     same_findings (visit_properties ps s) (visit_properties (map erase_time_periods ps) t)"
proof (induction ps arbitrary: s t)
  case Nil
  then show ?case by simp
next
  case (Cons p ps)
  have step: "same_findings (accept_visitor p s) (accept_visitor (erase_time_periods p) t)"
    using Cons.prems by (rule erase_same_findings(1))
  then have k: "topology_type (accept_visitor p s) =
      topology_type (accept_visitor (erase_time_periods p) t)"
    by (simp add: same_findings_def)
  show ?case
    using step k Cons.IH [OF step] by (simp add: Let_def)
qed

lemma erase_feature_findings:
  "topology_kind (erase_feature f) = topology_kind f"
  "referenced_feature_ids (erase_feature f) = referenced_feature_ids f"
  "get_feature_id (erase_feature f) = get_feature_id f"
proof -
  have "same_findings (visit_properties (properties f) initial_visitor)
          (visit_properties (map erase_time_periods (properties f)) initial_visitor)"
    by (rule erase_visit_properties) (simp add: same_findings_def)
  then have k: "topology_type (visit_properties (properties f) initial_visitor) =
        topology_type (visit_properties (map erase_time_periods (properties f)) initial_visitor)"
    and r: "map snd (references (visit_properties (properties f) initial_visitor)) =
        map snd (references (visit_properties (map erase_time_periods (properties f)) initial_visitor))"
    by (simp_all add: same_findings_def)
  show "topology_kind (erase_feature f) = topology_kind f"
    using k by (simp add: topology_kind_def visit_feature_def erase_feature_def Let_def)
  have "\<Union> (snd ` set (references (visit_properties (properties f) initial_visitor))) =
        \<Union> (snd ` set (references (visit_properties (map erase_time_periods (properties f)) initial_visitor)))"
    using arg_cong [OF r, of set] by (simp only: set_map)
  then show "referenced_feature_ids (erase_feature f) = referenced_feature_ids f"
    by (simp add: referenced_feature_ids_def get_referenced_feature_ids_Union visit_feature_def
          erase_feature_def Let_def)
  show "get_feature_id (erase_feature f) = get_feature_id f"
    by (simp add: erase_feature_def)
qed

lemma erase_feature_kinds:
  "is_polygon_or_network (erase_feature f) = is_polygon_or_network f"
  "is_line (erase_feature f) = is_line f"
  by (simp_all add: is_polygon_or_network_def is_line_def erase_feature_findings)

lemma concat_erase_collections:
  "concat (erase_collections fcs) = map erase_feature (concat fcs)"
  by (simp add: erase_collections_def map_concat)

lemma erase_polygons_and_networks:
  "polygons_and_networks (erase_collections fcs) = map erase_feature (polygons_and_networks fcs)"
  by (simp add: polygons_and_networks_def concat_erase_collections filter_map o_def
        erase_feature_kinds)

lemma erase_polygon_and_network_ids:
  "polygon_and_network_ids (erase_collections fcs) = polygon_and_network_ids fcs"
  by (simp add: polygon_and_network_ids_def erase_polygons_and_networks image_image
        erase_feature_findings)

lemma erase_directly_referenced:
  "directly_referenced (erase_collections fcs) = directly_referenced fcs"
  by (simp add: directly_referenced_def erase_polygons_and_networks erase_feature_findings)

lemma find_map_option:
  "find P (map f xs) = map_option f (find (\<lambda>x. P (f x)) xs)"
  by (induction xs) simp_all

lemma erase_recorded_line:
  "recorded_line (erase_collections fcs) i = map_option erase_feature (recorded_line fcs i)"
proof -
  have "rev (map erase_feature (concat fcs)) = map erase_feature (rev (concat fcs))"
    by (simp add: rev_map)
  then show ?thesis
    by (simp only: recorded_line_def concat_erase_collections find_map_option
          erase_feature_kinds erase_feature_findings)
qed

lemma erase_referenced_by_recorded_lines:
  "referenced_by_recorded_lines (erase_collections fcs) = referenced_by_recorded_lines fcs"
proof -
  have "(case recorded_line (erase_collections fcs) i of None \<Rightarrow> {}
          | Some line \<Rightarrow> referenced_feature_ids line) =
        (case recorded_line fcs i of None \<Rightarrow> {} | Some line \<Rightarrow> referenced_feature_ids line)" for i
    by (simp add: erase_recorded_line erase_feature_findings split: option.splits)
  then show ?thesis
    by (simp add: referenced_by_recorded_lines_def erase_directly_referenced)
qed

lemma erase_feature_ids_to_keep:
  "feature_ids_to_keep (erase_collections fcs) = feature_ids_to_keep fcs"
  by (simp only: feature_ids_to_keep_eq erase_polygon_and_network_ids erase_directly_referenced
        erase_referenced_by_recorded_lines)

lemma erase_remove_features:
  "remove_features_not_referenced_by_topologies (erase_collections fcs) flag =
     erase_collections (remove_features_not_referenced_by_topologies fcs flag')"
  by (simp add: remove_features_eq erase_feature_ids_to_keep)
     (simp add: erase_collections_def filter_map o_def erase_feature_findings)


section \<open>Filtering the filtered collections\<close>

lemma polygon_ids_kept:
  "polygon_and_network_ids fcs \<subseteq> feature_ids_to_keep fcs"
  "directly_referenced fcs \<subseteq> feature_ids_to_keep fcs"
  "referenced_by_recorded_lines fcs \<subseteq> feature_ids_to_keep fcs"
  by (auto simp: feature_ids_to_keep_eq)

lemma concat_map_filter:
  "concat (map (filter P) xss) = filter P (concat xss)"
  by (induction xss) simp_all

lemma find_filter_implied:
  assumes "\<And>x. P x \<Longrightarrow> Q x"
  shows "find P (filter Q xs) = find P xs"
  using assms by (induction xs) auto

lemma kept_polygons_and_networks:
  assumes "polygon_and_network_ids fcs \<subseteq> keep"
  shows "polygons_and_networks (map (filter (\<lambda>f. get_feature_id f \<in> keep)) fcs) =
         polygons_and_networks fcs"
proof -
  have "filter is_polygon_or_network (filter (\<lambda>f. get_feature_id f \<in> keep) (concat fcs)) =
        filter is_polygon_or_network (concat fcs)"
    unfolding filter_filter
  proof (rule filter_cong [OF refl])
    fix f assume "f \<in> set (concat fcs)"
    then show "(get_feature_id f \<in> keep \<and> is_polygon_or_network f) = is_polygon_or_network f"
      using assms
      by (auto simp: polygon_and_network_ids_def polygons_and_networks_def)
  qed
  then show ?thesis
    by (simp add: polygons_and_networks_def concat_map_filter)
qed

lemma kept_recorded_line:
  assumes "i \<in> keep"
  shows "recorded_line (map (filter (\<lambda>f. get_feature_id f \<in> keep)) fcs) i = recorded_line fcs i"
proof -
  have "find (\<lambda>f. is_line f \<and> get_feature_id f = i)
          (filter (\<lambda>f. get_feature_id f \<in> keep) (rev (concat fcs))) =
        find (\<lambda>f. is_line f \<and> get_feature_id f = i) (rev (concat fcs))"
    by (rule find_filter_implied) (use assms in auto)
  then show ?thesis
    by (simp add: recorded_line_def concat_map_filter rev_filter)
qed

lemma feature_ids_to_keep_of_kept:
  assumes "polygon_and_network_ids fcs \<union> directly_referenced fcs \<subseteq> keep"
  shows "feature_ids_to_keep (map (filter (\<lambda>f. get_feature_id f \<in> keep)) fcs) =
         feature_ids_to_keep fcs"
proof -
  let ?out = "map (filter (\<lambda>f. get_feature_id f \<in> keep)) fcs"
  have p: "polygons_and_networks ?out = polygons_and_networks fcs"
    using assms by (intro kept_polygons_and_networks) simp
  have a: "polygon_and_network_ids ?out = polygon_and_network_ids fcs"
    by (simp only: polygon_and_network_ids_def p)
  have b: "directly_referenced ?out = directly_referenced fcs"
    by (simp only: directly_referenced_def p)
  have c: "referenced_by_recorded_lines ?out = referenced_by_recorded_lines fcs"
    unfolding referenced_by_recorded_lines_def b
  proof (rule SUP_cong [OF refl])
    fix i assume "i \<in> directly_referenced fcs"
    then have "i \<in> keep" using assms by auto
    then show "(case recorded_line ?out i of None \<Rightarrow> {} | Some line \<Rightarrow> referenced_feature_ids line) =
        (case recorded_line fcs i of None \<Rightarrow> {} | Some line \<Rightarrow> referenced_feature_ids line)"
      by (simp only: kept_recorded_line)
  qed
  show ?thesis
    by (simp only: feature_ids_to_keep_eq a b c)
qed


section \<open>Survival, and the Line recorded under an id\<close>

lemma survives_iff:
  assumes "i < length fcs"
  shows "(f \<in> set (remove_features_not_referenced_by_topologies fcs flag ! i)) =
         (f \<in> set (fcs ! i) \<and> get_feature_id f \<in> feature_ids_to_keep fcs)"
  using assms by (simp add: remove_features_eq)

lemma find_SomeD:
  "find P xs = Some x \<Longrightarrow> P x \<and> x \<in> set xs"
  by (induction xs) (auto split: if_splits)

lemma recorded_line_Some:
  assumes "recorded_line fcs i = Some line"
  shows "line \<in> set (concat fcs)" "is_line line" "get_feature_id line = i"
proof -
  from assms have "(is_line line \<and> get_feature_id line = i) \<and> line \<in> set (rev (concat fcs))"
    unfolding recorded_line_def by (rule find_SomeD)
  then show "line \<in> set (concat fcs)" "is_line line" "get_feature_id line = i"
    by (simp_all only: set_rev)
qed

lemma recorded_lines_subset_some_line:
  "referenced_by_recorded_lines fcs \<subseteq> referenced_by_some_line fcs"
proof
  fix x assume "x \<in> referenced_by_recorded_lines fcs"
  then obtain i line where i: "i \<in> directly_referenced fcs"
    and r: "recorded_line fcs i = Some line" and x: "x \<in> referenced_feature_ids line"
    by (auto simp: referenced_by_recorded_lines_def split: option.splits)
  from recorded_line_Some [OF r] i x show "x \<in> referenced_by_some_line fcs"
    by (auto simp: referenced_by_some_line_def)
qed

lemma distinct_line_is_recorded:
  assumes d: "distinct (map get_feature_id (filter is_line (concat fcs)))"
    and l: "line \<in> set (concat fcs)" "is_line line"
  shows "recorded_line fcs (get_feature_id line) = Some line"
proof -
  have "find (\<lambda>f. is_line f \<and> get_feature_id f = get_feature_id line) (rev (concat fcs)) \<noteq> None"
    using l unfolding find_None_iff set_rev by blast
  then obtain line' where r: "recorded_line fcs (get_feature_id line) = Some line'"
    unfolding recorded_line_def by blast
  from recorded_line_Some [OF r] have l': "line' \<in> set (filter is_line (concat fcs))"
    and same: "get_feature_id line' = get_feature_id line" by auto
  from d have "inj_on get_feature_id (set (filter is_line (concat fcs)))"
    by (simp add: distinct_map)
  with l' same l have "line' = line"
    by (auto dest: inj_onD)
  with r show ?thesis by simp
qed

lemma distinct_lines_specified:
  assumes "distinct (map get_feature_id (filter is_line (concat fcs)))"
  shows "referenced_by_recorded_lines fcs = referenced_by_some_line fcs"
proof
  show "referenced_by_recorded_lines fcs \<subseteq> referenced_by_some_line fcs"
    by (rule recorded_lines_subset_some_line)
  show "referenced_by_some_line fcs \<subseteq> referenced_by_recorded_lines fcs"
  proof
    fix x assume "x \<in> referenced_by_some_line fcs"
    then obtain line where l: "line \<in> set (concat fcs)" "is_line line"
      and i: "get_feature_id line \<in> directly_referenced fcs"
      and x: "x \<in> referenced_feature_ids line"
      by (auto simp: referenced_by_some_line_def)
    from distinct_line_is_recorded [OF assms l] i x
    show "x \<in> referenced_by_recorded_lines fcs"
      unfolding referenced_by_recorded_lines_def by force
  qed
qed

section \<open>The example inputs evaluated\<close>

lemmas visit_defs =
  topology_kind_def referenced_feature_ids_def visit_feature_def initial_visitor_def
  get_referenced_feature_ids_def visit_gpml_topological_line_def
  visit_gpml_topological_polygon_def visit_gpml_topological_network_def Let_def

lemma regular_feature_findings:
  "get_feature_id (regular_feature i) = i"
  "topology_kind (regular_feature i) = None"
  "referenced_feature_ids (regular_feature i) = {}"
  by (simp_all add: regular_feature_def visit_defs)

lemma polygon_feature_findings:
  "get_feature_id (polygon_feature i xs) = i"
  "topology_kind (polygon_feature i xs) = Some GpmlTopologicalPolygon"
  "referenced_feature_ids (polygon_feature i xs) = set xs"
  by (simp_all add: polygon_feature_def visit_defs)

lemma line_feature_findings:
  "get_feature_id (line_feature i xs) = i"
  "topology_kind (line_feature i xs) = Some GpmlTopologicalLine"
  "referenced_feature_ids (line_feature i xs) = set xs"
  by (simp_all add: line_feature_def visit_defs)

lemma two_window_line_findings:
  "get_feature_id two_window_line = ''L''"
  "topology_kind two_window_line = Some GpmlTopologicalLine"
  "referenced_feature_ids two_window_line = {''R1'', ''R2''}"
  "get_references (snd (visit_feature two_window_line)) =
     [((Finite 10, Finite 5), {''R1''}), ((Finite 5, Finite 0), {''R2''})]"
  by (simp_all add: two_window_line_def visit_defs ALL_TIME_def insert_commute)

lemma network_feature_findings:
  "get_feature_id network_feature = ''N''"
  "topology_kind network_feature = Some GpmlTopologicalNetwork"
  "referenced_feature_ids network_feature = {''L'', ''R3''}"
  by (auto simp: network_feature_def visit_defs)

lemma two_window_polygon_findings:
  "get_feature_id (two_window_polygon b) = ''P''"
  "topology_kind (two_window_polygon b) = Some GpmlTopologicalPolygon"
  "referenced_feature_ids (two_window_polygon b) = {''R''}"
  by (simp_all add: two_window_polygon_def visit_defs)

lemmas example_findings =
  regular_feature_findings polygon_feature_findings line_feature_findings
  two_window_line_findings(1-3) network_feature_findings two_window_polygon_findings
  is_line_def is_polygon_or_network_def

lemmas keep_set_defs =
  feature_ids_to_keep_eq polygon_and_network_ids_def directly_referenced_def
  referenced_by_recorded_lines_def polygons_and_networks_def recorded_line_def

lemma keep_two_collections:
  "feature_ids_to_keep two_collections = {''P'', ''L'', ''R1'', ''R2'', ''R3''}"
  by (simp add: keep_set_defs two_collections_def example_findings) auto

lemma keep_network_collections:
  "feature_ids_to_keep network_collections = {''N'', ''L'', ''R1'', ''R2'', ''R3''}"
  by (simp add: keep_set_defs network_collections_def example_findings) auto

lemma keep_chained_lines:
  "feature_ids_to_keep chained_lines = {''P'', ''L1'', ''L2''}"
  by (simp add: keep_set_defs chained_lines_def example_findings) auto

lemma keep_windowed_collections:
  "feature_ids_to_keep (windowed_collections b) = {''P'', ''R''}"
  by (simp add: keep_set_defs windowed_collections_def example_findings) auto

lemma example_outputs:
  "remove_features_not_referenced_by_topologies chained_lines flag =
     [[polygon_feature ''P'' [''L1''], line_feature ''L1'' [''L2''], line_feature ''L2'' [''R'']]]"
  "remove_features_not_referenced_by_topologies two_collections flag =
     [[polygon_feature ''P'' [''L'', ''R1''], regular_feature ''R1''],
      [line_feature ''L'' [''R2'', ''R3''], regular_feature ''R2'', regular_feature ''R3'']]"
  "remove_features_not_referenced_by_topologies (windowed_collections b) flag =
     windowed_collections b"
  by (simp_all add: remove_features_eq keep_chained_lines keep_two_collections
        keep_windowed_collections)
     (simp_all add: chained_lines_def two_collections_def windowed_collections_def
        example_findings)

lemma erase_windowed_collections:
  "erase_collections (windowed_collections 10) = erase_collections (windowed_collections 20)"
  by (simp add: erase_collections_def windowed_collections_def erase_feature_def
        two_window_polygon_def)

section \<open>The properties of the specification\<close>

text \<open>
  Claim C1. Features are uniquely identified by their feature id; of that the proof
  needs that no two Line features share an id. Then, for every input, a non-topological
  feature survives the filter if and only if its id is in the keep-set of the
  specification: the ids of the Polygon and Network features, the ids a Polygon or
  Network references in any of its time windows, and the ids referenced by some Line
  whose id is among the directly referenced ones. That set is the set the code computes,
  with no deeper closure.
\<close>

theorem regular_feature_survives_iff:
  assumes "distinct (map get_feature_id (filter is_line (concat fcs)))"
    and "i < length fcs" and "f \<in> set (fcs ! i)" and "topology_kind f = None"
  shows "(f \<in> set (remove_features_not_referenced_by_topologies fcs flag ! i)) =
           (get_feature_id f \<in> specified_keep_set fcs) \<and>
         feature_ids_to_keep fcs = specified_keep_set fcs"
proof -
  have keep: "feature_ids_to_keep fcs = specified_keep_set fcs"
    using assms(1)
    by (simp only: feature_ids_to_keep_eq specified_keep_set_def distinct_lines_specified)
  have "(f \<in> set (remove_features_not_referenced_by_topologies fcs flag ! i)) =
      (get_feature_id f \<in> feature_ids_to_keep fcs)"
    using assms(2,3) by (simp add: survives_iff)
  with keep show ?thesis by simp
qed

theorem regular_feature_survives_iff_witness:
  "distinct (map get_feature_id (filter is_line (concat two_collections))) \<and>
   1 < length two_collections \<and>
   regular_feature ''R2'' \<in> set (two_collections ! 1) \<and>
   topology_kind (regular_feature ''R2'') = None \<and>
   regular_feature ''R2'' \<in>
     set (remove_features_not_referenced_by_topologies two_collections False ! 1) \<and>
   get_feature_id (regular_feature ''R2'') \<in> specified_keep_set two_collections \<and>
   regular_feature ''R4'' \<in> set (two_collections ! 1) \<and>
   topology_kind (regular_feature ''R4'') = None \<and>
   regular_feature ''R4'' \<notin>
     set (remove_features_not_referenced_by_topologies two_collections False ! 1) \<and>
   get_feature_id (regular_feature ''R4'') \<notin> specified_keep_set two_collections"
proof -
  have d: "distinct (map get_feature_id (filter is_line (concat two_collections)))"
    by (simp add: two_collections_def example_findings)
  have a: "1 < length two_collections" by (simp add: two_collections_def)
  have b: "regular_feature ''R2'' \<in> set (two_collections ! 1)"
    by (simp add: two_collections_def)
  have c: "topology_kind (regular_feature ''R2'') = None"
    by (simp add: example_findings)
  have e: "regular_feature ''R2'' \<in>
     set (remove_features_not_referenced_by_topologies two_collections False ! 1)"
    by (simp add: example_outputs)
  have b': "regular_feature ''R4'' \<in> set (two_collections ! 1)"
    by (simp add: two_collections_def)
  have c': "topology_kind (regular_feature ''R4'') = None"
    by (simp add: example_findings)
  have e': "regular_feature ''R4'' \<notin>
     set (remove_features_not_referenced_by_topologies two_collections False ! 1)"
    by (simp add: example_outputs) (simp add: regular_feature_def line_feature_def)
  from regular_feature_survives_iff [OF d a b c, of False]
    regular_feature_survives_iff [OF d a b' c', of False] d a b c e b' c' e'
  show ?thesis by blast
qed

text \<open>
  Claim C2, at a concrete input. The flag \<^verbatim>\<open>restrict_referenced_feature_time_periods\<close>
  is never read: both values give the same result. Polygon P references R in its window
  [10, 5] only, R declares the valid time [100, 0], and with the flag set R is returned
  with its valid time still [100, 0].
\<close>

theorem restriction_flag_never_read:
  "remove_features_not_referenced_by_topologies fcs True =
     remove_features_not_referenced_by_topologies fcs False \<and>
   get_references (snd (visit_feature (two_window_polygon 10))) =
     [((Finite 10, Finite 5), {''R''}), ((Finite 5, Finite 0), {})] \<and>
   remove_features_not_referenced_by_topologies (windowed_collections 10) True =
     [[two_window_polygon 10,
       \<lparr>get_feature_id = ''R'',
        properties = [GpmlConstantValue (GmlTimePeriod (Finite 100) (Finite 0)),
                      GpmlConstantValue OtherValue]\<rparr>]]"
proof (intro conjI)
  show "remove_features_not_referenced_by_topologies fcs True =
     remove_features_not_referenced_by_topologies fcs False"
    by (simp add: remove_features_not_referenced_by_topologies_def)
  show "get_references (snd (visit_feature (two_window_polygon 10))) =
     [((Finite 10, Finite 5), {''R''}), ((Finite 5, Finite 0), {})]"
    by (simp add: two_window_polygon_def visit_defs ALL_TIME_def)
  show "remove_features_not_referenced_by_topologies (windowed_collections 10) True =
     [[two_window_polygon 10,
       \<lparr>get_feature_id = ''R'',
        properties = [GpmlConstantValue (GmlTimePeriod (Finite 100) (Finite 0)),
                      GpmlConstantValue OtherValue]\<rparr>]]"
    by (simp add: example_outputs)
       (simp add: windowed_collections_def regular_feature_def)
qed

text \<open>
  Claim C3. For every input, every feature whose topology kind is Polygon or Network is
  present in the output collection that corresponds to its input collection, whatever
  the flag: the filter never removes such a feature.
\<close>

theorem polygons_and_networks_never_removed:
  assumes "i < length fcs" and "f \<in> set (fcs ! i)" and "is_polygon_or_network f"
  shows "f \<in> set (remove_features_not_referenced_by_topologies fcs flag ! i)"
proof -
  from assms(1) have "fcs ! i \<in> set fcs" by simp
  with assms(2) have "f \<in> set (concat fcs)" by auto
  with assms(3) have "get_feature_id f \<in> polygon_and_network_ids fcs"
    by (simp add: polygon_and_network_ids_def polygons_and_networks_def)
  then have "get_feature_id f \<in> feature_ids_to_keep fcs"
    using polygon_ids_kept(1) by blast
  with assms(1,2) show ?thesis
    by (simp add: survives_iff)
qed

theorem polygons_and_networks_never_removed_witness:
  "0 < length two_collections \<and>
   polygon_feature ''P'' [''L'', ''R1''] \<in> set (two_collections ! 0) \<and>
   is_polygon_or_network (polygon_feature ''P'' [''L'', ''R1'']) \<and>
   polygon_feature ''P'' [''L'', ''R1''] \<in>
     set (remove_features_not_referenced_by_topologies two_collections False ! 0)"
proof -
  have a: "0 < length two_collections" by (simp add: two_collections_def)
  have b: "polygon_feature ''P'' [''L'', ''R1''] \<in> set (two_collections ! 0)"
    by (simp add: two_collections_def)
  have c: "is_polygon_or_network (polygon_feature ''P'' [''L'', ''R1''])"
    by (simp add: example_findings)
  from a b c polygons_and_networks_never_removed [OF a b c, of False] show ?thesis
    by simp
qed

text \<open>
  Claim C4, as the code has it. A Line feature survives the filter if and only if its id
  is referenced by a Polygon or Network, or is referenced by the Line recorded under a
  directly referenced id, or is the id of a Polygon or Network feature. A Line whose id is
  in none of the three sets is removed.
\<close>

theorem line_survives_iff:
  assumes "i < length fcs" and "f \<in> set (fcs ! i)" and "is_line f"
  shows "(f \<in> set (remove_features_not_referenced_by_topologies fcs flag ! i)) =
           (get_feature_id f \<in> directly_referenced fcs \<or>
            get_feature_id f \<in> referenced_by_recorded_lines fcs \<or>
            get_feature_id f \<in> polygon_and_network_ids fcs)"
  using assms(1,2) by (simp only: survives_iff feature_ids_to_keep_eq) auto

theorem line_survives_iff_witness:
  "1 < length two_collections \<and>
   line_feature ''L'' [''R2'', ''R3''] \<in> set (two_collections ! 1) \<and>
   is_line (line_feature ''L'' [''R2'', ''R3'']) \<and>
   line_feature ''L'' [''R2'', ''R3''] \<in>
     set (remove_features_not_referenced_by_topologies two_collections False ! 1) \<and>
   line_feature ''L2'' [''R4''] \<in> set (two_collections ! 1) \<and>
   is_line (line_feature ''L2'' [''R4'']) \<and>
   line_feature ''L2'' [''R4''] \<notin>
     set (remove_features_not_referenced_by_topologies two_collections False ! 1)"
proof -
  have a: "1 < length two_collections" by (simp add: two_collections_def)
  have b: "line_feature ''L'' [''R2'', ''R3''] \<in> set (two_collections ! 1)"
    by (simp add: two_collections_def)
  have c: "is_line (line_feature ''L'' [''R2'', ''R3''])"
    by (simp add: example_findings)
  have d: "get_feature_id (line_feature ''L'' [''R2'', ''R3'']) \<in>
      directly_referenced two_collections"
    by (simp add: directly_referenced_def polygons_and_networks_def two_collections_def
          example_findings)
  have b': "line_feature ''L2'' [''R4''] \<in> set (two_collections ! 1)"
    by (simp add: two_collections_def)
  have c': "is_line (line_feature ''L2'' [''R4''])"
    by (simp add: example_findings)
  have d': "get_feature_id (line_feature ''L2'' [''R4'']) \<notin> directly_referenced two_collections \<and>
      get_feature_id (line_feature ''L2'' [''R4'']) \<notin> referenced_by_recorded_lines two_collections \<and>
      get_feature_id (line_feature ''L2'' [''R4'']) \<notin> polygon_and_network_ids two_collections"
    by (simp add: referenced_by_recorded_lines_def recorded_line_def directly_referenced_def
          polygon_and_network_ids_def polygons_and_networks_def two_collections_def
          example_findings)
  from line_survives_iff [OF a b c, of False] line_survives_iff [OF a b' c', of False]
    a b c d b' c' d'
  show ?thesis by blast
qed

text \<open>
  A Line referenced only by another Line survives when that Line is referenced by a
  polygon: P references L1, L1 references L2, and L2 is kept.
\<close>

theorem line_referenced_by_line_counterexample:
  "0 < length chained_lines \<and>
   line_feature ''L2'' [''R''] \<in> set (chained_lines ! 0) \<and>
   is_line (line_feature ''L2'' [''R'']) \<and>
   get_feature_id (line_feature ''L2'' [''R'']) \<notin> directly_referenced chained_lines \<and>
   line_feature ''L2'' [''R''] \<in>
     set (remove_features_not_referenced_by_topologies chained_lines False ! 0)"
proof (intro conjI)
  show "0 < length chained_lines" by (simp add: chained_lines_def)
  show "line_feature ''L2'' [''R''] \<in> set (chained_lines ! 0)"
    by (simp add: chained_lines_def)
  show "is_line (line_feature ''L2'' [''R''])"
    by (simp add: example_findings)
  show "get_feature_id (line_feature ''L2'' [''R'']) \<notin> directly_referenced chained_lines"
    by (simp add: directly_referenced_def polygons_and_networks_def chained_lines_def
          example_findings)
  show "line_feature ''L2'' [''R''] \<in>
     set (remove_features_not_referenced_by_topologies chained_lines False ! 0)"
    by (simp add: example_outputs)
qed

text \<open>
  Claim C5. Let the first topological property of a feature be a piecewise aggregation
  of topological value type whose time windows carry topological values. With exactly one
  window, the extractor records the single reference with the period \<open>ALL_TIME\<close>, whatever
  begin and end time the window declares; otherwise it records one reference per window,
  in order, each with that window's own declared begin and end time.
\<close>

theorem sole_time_window_is_all_time:
  assumes "properties f = ps @ GpmlPiecewiseAggregation value_type ws # qs"
    and "\<forall>q \<in> set ps. topology_type (accept_visitor q initial_visitor) = None"
    and "value_type = GpmlTopologicalLine \<or> value_type = GpmlTopologicalPolygon \<or>
         value_type = GpmlTopologicalNetwork"
    and "ws \<noteq> []"
    and "\<forall>w \<in> set ws. is_topological_value (get_value w)"
  shows "get_references (snd (visit_feature f)) =
           (if length ws = 1
            then [(ALL_TIME, section_feature_ids (get_value (hd ws)))]
            else map (\<lambda>w. ((get_begin_time w, get_end_time w),
                            section_feature_ids (get_value w))) ws)"
proof -
  let ?p = "GpmlPiecewiseAggregation value_type ws"
  have refs: "references (accept_visitor ?p initial_visitor) =
      (if length ws = 1
       then [(ALL_TIME, section_feature_ids (get_value (hd ws)))]
       else map (\<lambda>w. ((get_begin_time w, get_end_time w),
                       section_feature_ids (get_value w))) ws)"
  proof (cases "length ws = 1")
    case True
    then obtain w where ws: "ws = [w]"
      by (cases ws) auto
    obtain v b e where w: "w = GpmlTimeWindow v b e" by (cases w)
    from assms(5) ws w have "is_topological_value v" by simp
    from accept_topological_value(1) [OF this, of initial_visitor] assms(3) ws w
    show ?thesis by (simp add: initial_visitor_simps)
  next
    case False
    then have "accept_visitor ?p initial_visitor = visit_time_windows ws initial_visitor"
      using assms(3) by (auto split: list.splits gpml_time_window.splits)
    with False visit_time_windows_references [OF assms(5), of initial_visitor]
    show ?thesis by (simp add: initial_visitor_simps)
  qed
  have kind: "topology_type (accept_visitor ?p initial_visitor) \<noteq> None"
  proof (cases "length ws = 1")
    case True
    then obtain w where ws: "ws = [w]"
      by (cases ws) auto
    obtain v b e where w: "w = GpmlTimeWindow v b e" by (cases w)
    from assms(5) ws w have "is_topological_value v" by simp
    from accept_topological_value(2) [OF this, of initial_visitor] assms(3) ws w
    show ?thesis by simp
  next
    case False
    then have "accept_visitor ?p initial_visitor = visit_time_windows ws initial_visitor"
      using assms(3) by (auto split: list.splits gpml_time_window.splits)
    with visit_time_windows_kind [OF assms(5,4), of initial_visitor]
    show ?thesis by simp
  qed
  have "visit_properties (properties f) initial_visitor = accept_visitor ?p initial_visitor"
    unfolding assms(1) using assms(2) kind by (rule visit_properties_first)
  then have "get_references (snd (visit_feature f)) =
      references (accept_visitor ?p initial_visitor)"
    by (simp only: visit_feature_def Let_def snd_conv topological_reference.select_convs)
  then show ?thesis
    by (simp only: refs)
qed

theorem sole_time_window_is_all_time_witness:
  "get_references (snd (visit_feature one_window_polygon)) = [(ALL_TIME, {''R1'', ''R2''})] \<and>
   get_references (snd (visit_feature two_window_line)) =
     [((Finite 10, Finite 5), {''R1''}), ((Finite 5, Finite 0), {''R2''})]"
proof
  let ?ps = "[GpmlConstantValue (GmlTimePeriod (Finite 100) (Finite 0))]"
  let ?ws = "[GpmlTimeWindow (TopologicalPolygonValue [''R1'', ''R2'']) (Finite 10) (Finite 5)]"
  have a: "properties one_window_polygon =
      ?ps @ GpmlPiecewiseAggregation GpmlTopologicalPolygon ?ws # []"
    by (simp add: one_window_polygon_def)
  have b: "\<forall>q \<in> set ?ps. topology_type (accept_visitor q initial_visitor) = None"
    by (simp add: initial_visitor_simps)
  have c: "GpmlTopologicalPolygon = GpmlTopologicalLine \<or>
      GpmlTopologicalPolygon = GpmlTopologicalPolygon \<or>
      GpmlTopologicalPolygon = GpmlTopologicalNetwork"
    by simp
  have d: "?ws \<noteq> []" by simp
  have e: "\<forall>w \<in> set ?ws. is_topological_value (get_value w)" by simp
  from sole_time_window_is_all_time [OF a b c d e]
  show "get_references (snd (visit_feature one_window_polygon)) =
      [(ALL_TIME, {''R1'', ''R2''})]"
    by simp
next
  let ?ps = "[GpmlConstantValue (GmlTimePeriod (Finite 10) (Finite 0))]"
  let ?ws = "[GpmlTimeWindow (TopologicalLineValue [''R1'']) (Finite 10) (Finite 5),
              GpmlTimeWindow (TopologicalLineValue [''R2'']) (Finite 5) (Finite 0)]"
  have a: "properties two_window_line =
      ?ps @ GpmlPiecewiseAggregation GpmlTopologicalLine ?ws # []"
    by (simp add: two_window_line_def)
  have b: "\<forall>q \<in> set ?ps. topology_type (accept_visitor q initial_visitor) = None"
    by (simp add: initial_visitor_simps)
  have c: "GpmlTopologicalLine = GpmlTopologicalLine \<or>
      GpmlTopologicalLine = GpmlTopologicalPolygon \<or>
      GpmlTopologicalLine = GpmlTopologicalNetwork"
    by simp
  have d: "?ws \<noteq> []" by simp
  have e: "\<forall>w \<in> set ?ws. is_topological_value (get_value w)" by simp
  from sole_time_window_is_all_time [OF a b c d e]
  show "get_references (snd (visit_feature two_window_line)) =
      [((Finite 10, Finite 5), {''R1''}), ((Finite 5, Finite 0), {''R2''})]"
    by simp
qed

text \<open>
  Claim C6. Features are uniquely identified by their feature id; of that the proof
  needs that no two Line features share an id. Then, for every Line feature of the input
  whose id a Polygon or Network references, the ids of every one of its references,
  whatever their time periods and whichever window referenced the Line, are among the
  ids the Line references, and all of those are in the keep-set.
\<close>

theorem referenced_line_references_kept:
  assumes "distinct (map get_feature_id (filter is_line (concat fcs)))"
    and "line \<in> set (concat fcs)" and "is_line line"
    and "get_feature_id line \<in> directly_referenced fcs"
    and "(time_period, ids) \<in> set (get_references (snd (visit_feature line)))"
  shows "ids \<subseteq> referenced_feature_ids line \<and>
         referenced_feature_ids line \<subseteq> feature_ids_to_keep fcs"
proof
  show "ids \<subseteq> referenced_feature_ids line"
    using assms(5)
    by (force simp: referenced_feature_ids_def get_referenced_feature_ids_Union)
  have "recorded_line fcs (get_feature_id line) = Some line"
    using assms(1,2,3) by (rule distinct_line_is_recorded)
  then have "referenced_feature_ids line \<subseteq> referenced_by_recorded_lines fcs"
    using assms(4) unfolding referenced_by_recorded_lines_def by force
  then show "referenced_feature_ids line \<subseteq> feature_ids_to_keep fcs"
    using polygon_ids_kept(3) [of fcs] by blast
qed

theorem referenced_line_references_kept_witness:
  "distinct (map get_feature_id (filter is_line (concat network_collections))) \<and>
   two_window_line \<in> set (concat network_collections) \<and>
   is_line two_window_line \<and>
   get_feature_id two_window_line \<in> directly_referenced network_collections \<and>
   ((Finite 5, Finite 0), {''R2''}) \<in> set (get_references (snd (visit_feature two_window_line))) \<and>
   {''R2''} \<subseteq> referenced_feature_ids two_window_line \<and>
   referenced_feature_ids two_window_line \<subseteq> feature_ids_to_keep network_collections"
proof -
  have d: "distinct (map get_feature_id (filter is_line (concat network_collections)))"
    by (simp add: network_collections_def example_findings)
  have a: "two_window_line \<in> set (concat network_collections)"
    by (simp add: network_collections_def)
  have l: "is_line two_window_line"
    by (simp add: example_findings)
  have b: "get_feature_id two_window_line \<in> directly_referenced network_collections"
    by (simp add: directly_referenced_def polygons_and_networks_def network_collections_def
          example_findings)
  have c: "((Finite 5, Finite 0), {''R2''}) \<in>
      set (get_references (snd (visit_feature two_window_line)))"
    by (simp add: two_window_line_findings)
  from referenced_line_references_kept [OF d a l b c] d a l b c show ?thesis by simp
qed

text \<open>
  Claim C7. When \<open>p\<close> is the first property of a feature that assigns a topology kind
  (no property before it does), the extraction result is the kind and the references
  that visiting \<open>p\<close> alone yields: the properties after \<open>p\<close> are not scanned, the
  kind is one of Line, Polygon and Network, and the feature is not both a Line and a
  Polygon or Network.
\<close>

theorem first_topological_property_decides:
  assumes "properties f = ps @ p # qs"
    and "\<forall>q \<in> set ps. topology_type (accept_visitor q initial_visitor) = None"
    and "topology_type (accept_visitor p initial_visitor) \<noteq> None"
  shows "visit_feature f =
           (topology_type (accept_visitor p initial_visitor),
            \<lparr>get_feature = f,
             get_references = references (accept_visitor p initial_visitor)\<rparr>) \<and>
         topology_kind f \<noteq> None \<and> topology_kind f \<noteq> Some OtherValueType \<and>
         \<not> (is_line f \<and> is_polygon_or_network f)"
proof -
  have v: "visit_properties (properties f) initial_visitor = accept_visitor p initial_visitor"
    unfolding assms(1) using assms(2,3) by (rule visit_properties_first)
  have "topology_type (accept_visitor p initial_visitor) \<noteq> Some OtherValueType"
    by (rule kind_is_topological(1)) (simp add: initial_visitor_simps)
  with v assms(3) show ?thesis
    by (auto simp: visit_feature_def topology_kind_def Let_def is_line_def
          is_polygon_or_network_def)
qed

theorem first_topological_property_decides_witness:
  "visit_feature line_then_polygon =
     (Some GpmlTopologicalLine,
      \<lparr>get_feature = line_then_polygon, get_references = [(ALL_TIME, {''A''})]\<rparr>) \<and>
   topology_kind line_then_polygon \<noteq> None \<and>
   topology_kind line_then_polygon \<noteq> Some OtherValueType \<and>
   \<not> (is_line line_then_polygon \<and> is_polygon_or_network line_then_polygon)"
proof -
  let ?ps = "[GpmlConstantValue OtherValue]"
  let ?p = "GpmlConstantValue (TopologicalLineValue [''A''])"
  let ?qs = "[GpmlConstantValue (TopologicalPolygonValue [''B''])]"
  have a: "properties line_then_polygon = ?ps @ ?p # ?qs"
    by (simp add: line_then_polygon_def)
  have b: "\<forall>q \<in> set ?ps. topology_type (accept_visitor q initial_visitor) = None"
    by (simp add: initial_visitor_simps)
  have c: "topology_type (accept_visitor ?p initial_visitor) \<noteq> None"
    by (simp add: visit_gpml_topological_line_def)
  from first_topological_property_decides [OF a b c] show ?thesis
    by (simp add: visit_gpml_topological_line_def initial_visitor_simps)
qed

text \<open>
  Claim C8. The filter is idempotent: applied to its own output (which still holds every
  Polygon and Network, and every Line that matters), it returns that output unchanged,
  whatever the flag of either run.
\<close>

theorem filtering_is_idempotent:
  "remove_features_not_referenced_by_topologies
     (remove_features_not_referenced_by_topologies fcs flag) flag' =
   remove_features_not_referenced_by_topologies fcs flag"
proof -
  let ?keep = "feature_ids_to_keep fcs"
  have sub: "polygon_and_network_ids fcs \<union> directly_referenced fcs \<subseteq> ?keep"
    using polygon_ids_kept(1,2) [of fcs] by simp
  have k: "feature_ids_to_keep (map (filter (\<lambda>f. get_feature_id f \<in> ?keep)) fcs) = ?keep"
    using sub by (rule feature_ids_to_keep_of_kept)
  show ?thesis
    by (simp add: remove_features_eq k)
qed

text \<open>
  Claim C9. The returned list has one collection per input collection, in the same
  order; each returned collection is a subsequence of its input collection (the
  survivors in their original relative order, none duplicated, none taken from another
  collection): it is the input collection restricted to the features whose id is kept.
\<close>

theorem one_filtered_collection_per_input:
  "length (remove_features_not_referenced_by_topologies fcs flag) = length fcs \<and>
   list_all2 subseq (remove_features_not_referenced_by_topologies fcs flag) fcs \<and>
   remove_features_not_referenced_by_topologies fcs flag =
     map (filter (\<lambda>f. get_feature_id f \<in> feature_ids_to_keep fcs)) fcs"
proof (intro conjI)
  show "length (remove_features_not_referenced_by_topologies fcs flag) = length fcs"
    by (simp add: remove_features_not_referenced_by_topologies_def)
  show "list_all2 subseq (remove_features_not_referenced_by_topologies fcs flag) fcs"
    by (simp add: remove_features_eq list_all2_map1 list_all2_same)
  show "remove_features_not_referenced_by_topologies fcs flag =
     map (filter (\<lambda>f. get_feature_id f \<in> feature_ids_to_keep fcs)) fcs"
    by (rule remove_features_eq)
qed

text \<open>
  Claim C10, as the code has it. Two inputs that are identical except for the declared
  begin and end times of their time windows have the same keep-set, and their outputs
  are identical except for those same declared times: the same features are retained.
\<close>

theorem time_periods_not_consulted:
  assumes "erase_collections fcs1 = erase_collections fcs2"
  shows "feature_ids_to_keep fcs1 = feature_ids_to_keep fcs2 \<and>
         erase_collections (remove_features_not_referenced_by_topologies fcs1 flag1) =
         erase_collections (remove_features_not_referenced_by_topologies fcs2 flag2)"
proof
  show "feature_ids_to_keep fcs1 = feature_ids_to_keep fcs2"
    using erase_feature_ids_to_keep [of fcs1] erase_feature_ids_to_keep [of fcs2] assms by simp
  show "erase_collections (remove_features_not_referenced_by_topologies fcs1 flag1) =
         erase_collections (remove_features_not_referenced_by_topologies fcs2 flag2)"
    using erase_remove_features [of fcs1 flag1 flag1] erase_remove_features [of fcs2 flag1 flag2] assms
    by simp
qed

theorem time_periods_not_consulted_witness:
  "erase_collections (windowed_collections 10) = erase_collections (windowed_collections 20) \<and>
   feature_ids_to_keep (windowed_collections 10) = feature_ids_to_keep (windowed_collections 20) \<and>
   erase_collections (remove_features_not_referenced_by_topologies (windowed_collections 10) False) =
   erase_collections (remove_features_not_referenced_by_topologies (windowed_collections 20) False)"
  using time_periods_not_consulted [OF erase_windowed_collections, of False False]
    erase_windowed_collections by simp

text \<open>
  The outputs themselves differ: a retained topological feature is returned with the
  time windows it came with.
\<close>

theorem identical_outputs_counterexample:
  "erase_collections (windowed_collections 10) = erase_collections (windowed_collections 20) \<and>
   remove_features_not_referenced_by_topologies (windowed_collections 10) False \<noteq>
   remove_features_not_referenced_by_topologies (windowed_collections 20) False"
proof
  show "erase_collections (windowed_collections 10) = erase_collections (windowed_collections 20)"
    by (rule erase_windowed_collections)
  show "remove_features_not_referenced_by_topologies (windowed_collections 10) False \<noteq>
   remove_features_not_referenced_by_topologies (windowed_collections 20) False"
    by (simp add: example_outputs)
       (simp add: windowed_collections_def two_window_polygon_def)
qed

end
